theory Spec2Isabelle
  imports Main
begin

section \<open>The chat relay of main.py\<close>

text \<open>
  The program is a FastAPI application with three handlers. Everything it does beyond
  mapping a request to a response is a sequence of calls to the remote assistant service,
  made through one client object, and a bounded polling loop inside the \<open>/chat\<close> handler.

  The embedding makes the remote service explicit:
  \<^item> every call the handler makes through the client, and every sleep, is appended to a
    log in the order in which the source performs it;
  \<^item> the client is a record of the answers of the service: each method either raises
    (\<open>Inl\<close> of the text that \<open>str(e)\<close> gives) or returns a value (\<open>Inr\<close>);
  \<^item> the answer to a status retrieval may change from one call to the next, so
    \<open>runs_retrieve\<close> takes the number of status retrievals made before it;
  \<^item> \<open>raise\<close> is a value of type \<open>exn\<close> on the left of a sum;
  \<^item> \<open>print\<close> is left out: it changes no value the handlers return.
\<close>

subsection \<open>Data\<close>

text \<open>The pydantic models of the source.\<close>

record ChatRequest =
  thread_id :: string
  message :: string

record ChatResponse =
  response :: string

text \<open>
  What the handlers can raise: \<open>HTTPException(status_code, detail)\<close>, or any other
  \<open>Exception\<close>, kept as the text of \<open>str(e)\<close>.
\<close>

datatype exn = HTTPException nat string | Exception string

text \<open>
  A run object of the remote service, as far as the source reads it: \<open>run.id\<close>,
  \<open>run_status.status\<close> and \<open>run_status.last_error\<close>. The last one is either Python's
  \<open>None\<close> or an object, which is truthy and which the f-string renders with \<open>str\<close>;
  the field holds that rendering.
\<close>

record run =
  run_id :: string
  status :: string
  last_error :: "string option"

text \<open>
  A message of a thread, as far as the source reads it: \<open>content[0].text.value\<close>.
  A content block is a text block with its value, or a block of another class, which
  has no attribute \<open>text\<close>; the class name is kept for the text of the AttributeError.
\<close>

datatype content_block = TextContentBlock string | OtherContentBlock string

record thread_message =
  content :: "content_block list"

text \<open>
  The client. \<open>messages_create thread_id role content\<close>,
  \<open>runs_create thread_id assistant_id\<close>, \<open>runs_retrieve k thread_id run_id\<close> (the answer
  to the status retrieval that comes after \<open>k\<close> earlier ones) and
  \<open>messages_list thread_id limit\<close> (the field \<open>data\<close> of the page returned).
\<close>

record remote =
  messages_create :: "string \<Rightarrow> string \<Rightarrow> string \<Rightarrow> string + unit"
  runs_create :: "string \<Rightarrow> string option \<Rightarrow> string + run"
  runs_retrieve :: "nat \<Rightarrow> string \<Rightarrow> string \<Rightarrow> string + run"
  messages_list :: "string \<Rightarrow> nat \<Rightarrow> string + thread_message list"

text \<open>The two module-level globals, \<open>None\<close> until the lifespan hook sets them.\<close>

record app_state =
  client :: "remote option"
  assistant_id :: "string option"

text \<open>What the handler does to the outside, in order.\<close>

datatype call =
    MessagesCreate string string string
  | RunsCreate string "string option"
  | RunsRetrieve string string
  | Sleep nat
  | MessagesList string nat

fun is_retrieve :: "call \<Rightarrow> bool" where
  "is_retrieve (RunsRetrieve _ _) = True"
| "is_retrieve _ = False"


definition retrievals :: "call list \<Rightarrow> nat" where
  "retrievals log = length (filter is_retrieve log)"

subsection \<open>Constants\<close>

definition MAX_POLL_ATTEMPTS :: nat where
  "MAX_POLL_ATTEMPTS = 60"

definition POLL_INTERVAL :: nat where
  "POLL_INTERVAL = 1"

subsection \<open>The polling loop of \<open>chat\<close>\<close>

text \<open>
  The \<open>while attempts < MAX_POLL_ATTEMPTS\<close> loop (lines 105 to 131). It returns the log
  and either the exception that left the loop or the value of \<open>attempts\<close> with which
  the loop ended, by \<open>break\<close> or by its condition.
\<close>

function poll :: "remote \<Rightarrow> string \<Rightarrow> run \<Rightarrow> nat \<Rightarrow> call list \<Rightarrow> call list \<times> (exn + nat)" where
  "poll c tid r attempts log =
     (if attempts < MAX_POLL_ATTEMPTS then
        (let log1 = log @ [RunsRetrieve tid (run_id r)] in
         case runs_retrieve c (retrievals log) tid (run_id r) of
           Inl e \<Rightarrow> (log1, Inl (Exception e))
         | Inr run_status \<Rightarrow>
             (let status = status run_status in
              if status = ''completed'' then (log1, Inr attempts)
              else if status \<in> set [''cancelling'', ''cancelled'', ''expired'', ''failed''] then
                (let error_msg = ''Run ended with status: '' @ status;
                     error_msg = (if status = ''failed'' \<and> last_error run_status \<noteq> None
                                  then error_msg @ '' - Error: '' @ the (last_error run_status)
                                  else error_msg)
                 in (log1, Inl (HTTPException 500 error_msg)))
              else if status = ''requires_action'' then
                (log1, Inl (HTTPException 500
                   ''Run requires action - function calling not implemented''))
              else poll c tid r (attempts + 1) (log1 @ [Sleep POLL_INTERVAL])))
      else (log, Inr attempts))"
  by pat_completeness auto
termination
  by (relation "measure (\<lambda>(c, tid, r, attempts, log). MAX_POLL_ATTEMPTS - attempts)") auto

declare poll.simps [simp del]

subsection \<open>The \<open>/chat\<close> handler\<close>

text \<open>
  The handler is one function in the source; it is cut here at the end of the loop, so
  that each part can be read beside its lines.

  Lines 139 to 153: list the messages of the thread with \<open>limit=1\<close>, and return the
  text of \<open>messages.data[0].content[0]\<close>. Indexing an empty \<open>content\<close> raises
  IndexError; a first block without the attribute \<open>text\<close> raises AttributeError.
\<close>

definition chat_reply :: "remote \<Rightarrow> string \<Rightarrow> call list \<Rightarrow> call list \<times> (exn + ChatResponse)" where
  "chat_reply c tid log0 =
     (let log = log0 @ [MessagesList tid 1] in
      case messages_list c tid 1 of
        Inl e \<Rightarrow> (log, Inl (Exception e))
      | Inr data \<Rightarrow>
          (case data of
             [] \<Rightarrow> (log, Inl (HTTPException 500 ''No response from assistant''))
           | m # _ \<Rightarrow>
               (case content m of
                  [] \<Rightarrow> (log, Inl (Exception ''list index out of range''))
                | TextContentBlock response_text # _ \<Rightarrow> (log, Inr \<lparr>response = response_text\<rparr>)
                | OtherContentBlock cls # _ \<Rightarrow>
                    (log, Inl (Exception (CHR 0x27 # cls @ CHR 0x27 # '' object has no attribute ''
                                          @ CHR 0x27 # ''text'' @ [CHR 0x27]))))))"

text \<open>
  Lines 133 to 153, after the loop: an exception raised in the loop goes on to the
  \<open>except\<close> clauses; otherwise the test \<open>attempts >= MAX_POLL_ATTEMPTS\<close> decides
  between the timeout and the reply.
\<close>

fun chat_after_poll :: "remote \<Rightarrow> string \<Rightarrow> call list \<times> (exn + nat) \<Rightarrow> call list \<times> (exn + ChatResponse)" where
  "chat_after_poll c tid (log, Inl e) = (log, Inl e)"
| "chat_after_poll c tid (log, Inr attempts) =
     (if attempts \<ge> MAX_POLL_ATTEMPTS then
        (log, Inl (HTTPException 504 ''Request timeout: Assistant did not respond in time''))
      else chat_reply c tid log)"

text \<open>
  The body of the \<open>try\<close> (lines 89 to 153). With \<open>client\<close> still \<open>None\<close> the first
  attribute access \<open>client.beta\<close> raises AttributeError.
\<close>

definition chat_try :: "app_state \<Rightarrow> string \<Rightarrow> string \<Rightarrow> call list \<times> (exn + ChatResponse)" where
  "chat_try st tid user_input =
     (case client st of
        None \<Rightarrow> ([], Inl (Exception (CHR 0x27 # ''NoneType'' @ CHR 0x27 # '' object has no attribute ''
                                      @ CHR 0x27 # ''beta'' @ [CHR 0x27])))
      | Some c \<Rightarrow>
          (let log = [MessagesCreate tid ''user'' user_input] in
           case messages_create c tid ''user'' user_input of
             Inl e \<Rightarrow> (log, Inl (Exception e))
           | Inr _ \<Rightarrow>
               (let log = log @ [RunsCreate tid (assistant_id st)] in
                case runs_create c tid (assistant_id st) of
                  Inl e \<Rightarrow> (log, Inl (Exception e))
                | Inr r \<Rightarrow> chat_after_poll c tid (poll c tid r 0 log))))"

text \<open>
  The two \<open>except\<close> clauses (lines 155 to 159): an HTTPException is raised again as it
  is, any other exception becomes a 500 with a generic detail.
\<close>

fun chat_except :: "call list \<times> (exn + ChatResponse) \<Rightarrow> call list \<times> (exn + ChatResponse)" where
  "chat_except (log, Inl (HTTPException code detail)) = (log, Inl (HTTPException code detail))"
| "chat_except (log, Inl (Exception e)) =
     (log, Inl (HTTPException 500 (''Internal server error: '' @ e)))"
| "chat_except (log, Inr res) = (log, Inr res)"

definition chat :: "app_state \<Rightarrow> ChatRequest \<Rightarrow> call list \<times> (exn + ChatResponse)" where
  "chat st chat_request =
     (let thread_id = thread_id chat_request;
          user_input = message chat_request
      in if thread_id = [] then ([], Inl (HTTPException 400 ''Missing thread_id''))
         else chat_except (chat_try st thread_id user_input))"

subsection \<open>The request body of \<open>/chat\<close>\<close>





subsection \<open>The \<open>/health\<close> handler\<close>

text \<open>The handler returns a dict with three keys, one string and two booleans.\<close>

datatype json = JStr string | JBool bool

definition health_check :: "app_state \<Rightarrow> (string \<times> json) list" where
  "health_check st =
     [(''status'', JStr ''healthy''),
      (''openai_configured'', JBool (\<not> Option.is_none (client st))),
      (''assistant_configured'', JBool (\<not> Option.is_none (assistant_id st)))]"

subsection \<open>Vocabulary of the properties\<close>

text \<open>
  The statuses at which the loop stops: the one that leaves it by \<open>break\<close> and the
  five at which it raises. Every other string keeps the loop going.
\<close>

definition terminal_status :: "string \<Rightarrow> bool" where
  "terminal_status s = (s \<in> set [''completed'', ''cancelling'', ''cancelled'', ''expired'',
                                  ''failed'', ''requires_action''])"

text \<open>One full pass of the loop body: the retrieval and the sleep after it.\<close>

definition poll_round :: "string \<Rightarrow> run \<Rightarrow> call list" where
  "poll_round tid r = [RunsRetrieve tid (run_id r), Sleep POLL_INTERVAL]"

text \<open>
  The log of the two calls before the loop, and the condition under which the handler
  gets as far as the loop with run \<open>r\<close>: a non-empty thread id, an initialised client,
  and both creations answered without an exception.
\<close>

definition chat_prefix :: "app_state \<Rightarrow> ChatRequest \<Rightarrow> call list" where
  "chat_prefix st req =
     [MessagesCreate (thread_id req) ''user'' (message req),
      RunsCreate (thread_id req) (assistant_id st)]"

definition run_started :: "app_state \<Rightarrow> ChatRequest \<Rightarrow> remote \<Rightarrow> run \<Rightarrow> bool" where
  "run_started st req c r =
     (thread_id req \<noteq> [] \<and> client st = Some c
      \<and> messages_create c (thread_id req) ''user'' (message req) = Inr ()
      \<and> runs_create c (thread_id req) (assistant_id st) = Inr r)"

subsection \<open>Scripted services for the examples\<close>

text \<open>
  A service that accepts the message, opens the run \<open>run_1\<close>, answers the first \<open>n\<close>
  status retrievals with \<open>queued\<close> and every later one with status \<open>s\<close> and error
  detail \<open>e\<close>, and lists \<open>data\<close> as the messages of the thread.
\<close>

definition scripted_run :: "nat \<Rightarrow> string \<Rightarrow> string option \<Rightarrow> nat \<Rightarrow> run" where
  "scripted_run n s e k =
     \<lparr>run_id = ''run_1'',
      status = (if k < n then ''queued'' else s),
      last_error = (if k < n then None else e)\<rparr>"

definition scripted_remote :: "nat \<Rightarrow> string \<Rightarrow> string option \<Rightarrow> thread_message list \<Rightarrow> remote" where
  "scripted_remote n s e data =
     \<lparr>messages_create = (\<lambda>tid role text. Inr ()),
      runs_create = (\<lambda>tid aid. Inr (scripted_run n s e 0)),
      runs_retrieve = (\<lambda>k tid rid. Inr (scripted_run n s e k)),
      messages_list = (\<lambda>tid limit. Inr data)\<rparr>"

definition scripted_state :: "nat \<Rightarrow> string \<Rightarrow> string option \<Rightarrow> thread_message list \<Rightarrow> app_state" where
  "scripted_state n s e data =
     \<lparr>client = Some (scripted_remote n s e data), assistant_id = Some ''asst_1''\<rparr>"

definition hello_request :: ChatRequest where
  "hello_request = \<lparr>thread_id = ''thread_1'', message = ''hello''\<rparr>"


section \<open>Properties\<close>

subsection \<open>The loop, one pass at a time\<close>

lemma retrievals_append [simp]: "retrievals (xs @ ys) = retrievals xs + retrievals ys"
  by (simp add: retrievals_def)

lemma retrievals_Nil [simp]: "retrievals [] = 0"
  by (simp add: retrievals_def)

lemma retrievals_Cons [simp]: "retrievals (x # xs) = (if is_retrieve x then 1 else 0) + retrievals xs"
  by (simp add: retrievals_def)

lemma retrievals_rounds [simp]: "retrievals (concat (replicate m (poll_round tid r))) = m"
  by (induction m) (simp_all add: poll_round_def)

lemma poll_continue:
  assumes "attempts < MAX_POLL_ATTEMPTS"
    and "runs_retrieve c (retrievals log) tid (run_id r) = Inr rs"
    and "\<not> terminal_status (status rs)"
  shows "poll c tid r attempts log = poll c tid r (attempts + 1) (log @ poll_round tid r)"
  using assms by (subst poll.simps) (simp add: terminal_status_def poll_round_def)

lemma poll_rounds:
  assumes "attempts + m \<le> MAX_POLL_ATTEMPTS"
    and "\<forall>j<m. \<exists>rs. runs_retrieve c (retrievals log + j) tid (run_id r) = Inr rs
                    \<and> \<not> terminal_status (status rs)"
  shows "poll c tid r attempts log =
         poll c tid r (attempts + m) (log @ concat (replicate m (poll_round tid r)))"
  using assms
proof (induction m arbitrary: attempts log)
  case 0
  then show ?case by simp
next
  case (Suc m)
  from Suc.prems(2) obtain rs where rs: "runs_retrieve c (retrievals log) tid (run_id r) = Inr rs"
    "\<not> terminal_status (status rs)"
    by force
  have lt: "attempts < MAX_POLL_ATTEMPTS" using Suc.prems(1) by simp
  have step: "poll c tid r attempts log = poll c tid r (attempts + 1) (log @ poll_round tid r)"
    using poll_continue [OF lt rs] .
  have rest: "\<forall>j<m. \<exists>rs. runs_retrieve c (retrievals (log @ poll_round tid r) + j) tid (run_id r) = Inr rs
                    \<and> \<not> terminal_status (status rs)"
  proof (intro allI impI)
    fix j assume "j < m"
    then have "Suc j < Suc m" by simp
    with Suc.prems(2) obtain rs' where
      "runs_retrieve c (retrievals log + Suc j) tid (run_id r) = Inr rs'" "\<not> terminal_status (status rs')"
      by blast
    then show "\<exists>rs. runs_retrieve c (retrievals (log @ poll_round tid r) + j) tid (run_id r) = Inr rs
                    \<and> \<not> terminal_status (status rs)"
      by (simp add: poll_round_def)
  qed
  have "poll c tid r (attempts + 1) (log @ poll_round tid r) =
        poll c tid r (attempts + 1 + m) ((log @ poll_round tid r) @ concat (replicate m (poll_round tid r)))"
    using Suc.IH [of "attempts + 1" "log @ poll_round tid r"] Suc.prems(1) rest by simp
  with step show ?case by simp
qed

lemma poll_exhausted: "MAX_POLL_ATTEMPTS \<le> attempts \<Longrightarrow> poll c tid r attempts log = (log, Inr attempts)"
  by (subst poll.simps) simp

lemma poll_completed:
  assumes "attempts < MAX_POLL_ATTEMPTS"
    and "runs_retrieve c (retrievals log) tid (run_id r) = Inr rs"
    and "status rs = ''completed''"
  shows "poll c tid r attempts log = (log @ [RunsRetrieve tid (run_id r)], Inr attempts)"
  using assms by (subst poll.simps) simp

lemma poll_failure:
  assumes "attempts < MAX_POLL_ATTEMPTS"
    and "runs_retrieve c (retrievals log) tid (run_id r) = Inr rs"
    and "status rs \<in> set [''cancelling'', ''cancelled'', ''expired'', ''failed'']"
  shows "poll c tid r attempts log =
         (log @ [RunsRetrieve tid (run_id r)],
          Inl (HTTPException 500
                 (if status rs = ''failed'' \<and> last_error rs \<noteq> None
                  then ''Run ended with status: '' @ status rs @ '' - Error: '' @ the (last_error rs)
                  else ''Run ended with status: '' @ status rs)))"
  using assms by (subst poll.simps) auto

lemma poll_requires_action:
  assumes "attempts < MAX_POLL_ATTEMPTS"
    and "runs_retrieve c (retrievals log) tid (run_id r) = Inr rs"
    and "status rs = ''requires_action''"
  shows "poll c tid r attempts log =
         (log @ [RunsRetrieve tid (run_id r)],
          Inl (HTTPException 500 ''Run requires action - function calling not implemented''))"
  using assms by (subst poll.simps) simp

lemma poll_raises:
  assumes "attempts < MAX_POLL_ATTEMPTS"
    and "runs_retrieve c (retrievals log) tid (run_id r) = Inl e"
  shows "poll c tid r attempts log = (log @ [RunsRetrieve tid (run_id r)], Inl (Exception e))"
  using assms by (subst poll.simps) simp


subsection \<open>The handler around the loop\<close>

lemma retrievals_chat_prefix [simp]: "retrievals (chat_prefix st req) = 0"
  by (simp add: chat_prefix_def)

lemma chat_started:
  assumes "run_started st req c r"
  shows "chat st req =
         chat_except (chat_after_poll c (thread_id req) (poll c (thread_id req) r 0 (chat_prefix st req)))"
  using assms by (simp add: chat_def chat_try_def run_started_def chat_prefix_def Let_def)

lemma poll_from_start:
  assumes "k \<le> MAX_POLL_ATTEMPTS"
    and "\<forall>j<k. \<exists>rs. runs_retrieve c j (thread_id req) (run_id r) = Inr rs
                    \<and> \<not> terminal_status (status rs)"
  shows "poll c (thread_id req) r 0 (chat_prefix st req) =
         poll c (thread_id req) r k
           (chat_prefix st req @ concat (replicate k (poll_round (thread_id req) r)))"
  using poll_rounds [of 0 k c "chat_prefix st req" "thread_id req" r] assms by simp

lemma chat_except_HTTP [simp]:
  "chat_except (log, Inl (HTTPException code d)) = (log, Inl (HTTPException code d))"
  by simp

lemma chat_timeout:
  assumes "run_started st req c r"
    and "\<forall>k<MAX_POLL_ATTEMPTS. \<exists>rs. runs_retrieve c k (thread_id req) (run_id r) = Inr rs
                    \<and> \<not> terminal_status (status rs)"
  shows "chat st req =
         (chat_prefix st req @ concat (replicate MAX_POLL_ATTEMPTS (poll_round (thread_id req) r)),
          Inl (HTTPException 504 ''Request timeout: Assistant did not respond in time''))"
proof -
  have "poll c (thread_id req) r 0 (chat_prefix st req) =
        (chat_prefix st req @ concat (replicate MAX_POLL_ATTEMPTS (poll_round (thread_id req) r)),
         Inr MAX_POLL_ATTEMPTS)"
    using poll_from_start [OF order_refl assms(2)] by (simp add: poll_exhausted)
  then show ?thesis
    using chat_started [OF assms(1)] by simp
qed

lemma poll_reaches:
  assumes "k < MAX_POLL_ATTEMPTS"
    and "\<forall>j<k. \<exists>rs. runs_retrieve c j (thread_id req) (run_id r) = Inr rs
                    \<and> \<not> terminal_status (status rs)"
  shows "poll c (thread_id req) r 0 (chat_prefix st req) =
         poll c (thread_id req) r k
           (chat_prefix st req @ concat (replicate k (poll_round (thread_id req) r)))"
    and "retrievals (chat_prefix st req @ concat (replicate k (poll_round (thread_id req) r))) = k"
  using poll_from_start [of k c req r st] assms by simp_all

lemma chat_completed:
  assumes "run_started st req c r"
    and "k < MAX_POLL_ATTEMPTS"
    and "\<forall>j<k. \<exists>rs. runs_retrieve c j (thread_id req) (run_id r) = Inr rs
                    \<and> \<not> terminal_status (status rs)"
    and "runs_retrieve c k (thread_id req) (run_id r) = Inr rs"
    and "status rs = ''completed''"
  shows "chat st req =
         chat_except (chat_reply c (thread_id req)
           (chat_prefix st req @ concat (replicate k (poll_round (thread_id req) r))
            @ [RunsRetrieve (thread_id req) (run_id r)]))"
proof -
  let ?log = "chat_prefix st req @ concat (replicate k (poll_round (thread_id req) r))"
  have "retrievals ?log = k" by simp
  then have "poll c (thread_id req) r k ?log = (?log @ [RunsRetrieve (thread_id req) (run_id r)], Inr k)"
    using poll_completed [of k c ?log "thread_id req" r rs] assms(2,4,5) by simp
  then have "poll c (thread_id req) r 0 (chat_prefix st req) =
             (?log @ [RunsRetrieve (thread_id req) (run_id r)], Inr k)"
    using poll_reaches(1) [OF assms(2,3)] by simp
  then show ?thesis
    using chat_started [OF assms(1)] assms(2) by simp
qed

lemma chat_failure:
  assumes "run_started st req c r"
    and "k < MAX_POLL_ATTEMPTS"
    and "\<forall>j<k. \<exists>rs. runs_retrieve c j (thread_id req) (run_id r) = Inr rs
                    \<and> \<not> terminal_status (status rs)"
    and "runs_retrieve c k (thread_id req) (run_id r) = Inr rs"
    and "status rs \<in> set [''cancelling'', ''cancelled'', ''expired'', ''failed'']"
  shows "chat st req =
         (chat_prefix st req @ concat (replicate k (poll_round (thread_id req) r))
            @ [RunsRetrieve (thread_id req) (run_id r)],
          Inl (HTTPException 500
                 (if status rs = ''failed'' \<and> last_error rs \<noteq> None
                  then ''Run ended with status: '' @ status rs @ '' - Error: '' @ the (last_error rs)
                  else ''Run ended with status: '' @ status rs)))"
proof -
  let ?log = "chat_prefix st req @ concat (replicate k (poll_round (thread_id req) r))"
  have "retrievals ?log = k" by simp
  then have "poll c (thread_id req) r k ?log =
         (?log @ [RunsRetrieve (thread_id req) (run_id r)],
          Inl (HTTPException 500
                 (if status rs = ''failed'' \<and> last_error rs \<noteq> None
                  then ''Run ended with status: '' @ status rs @ '' - Error: '' @ the (last_error rs)
                  else ''Run ended with status: '' @ status rs)))"
    using poll_failure [of k c ?log "thread_id req" r rs] assms(2,4,5) by simp
  then show ?thesis
    using chat_started [OF assms(1)] poll_reaches(1) [OF assms(2,3), of st] by simp
qed

lemma chat_requires_action:
  assumes "run_started st req c r"
    and "k < MAX_POLL_ATTEMPTS"
    and "\<forall>j<k. \<exists>rs. runs_retrieve c j (thread_id req) (run_id r) = Inr rs
                    \<and> \<not> terminal_status (status rs)"
    and "runs_retrieve c k (thread_id req) (run_id r) = Inr rs"
    and "status rs = ''requires_action''"
  shows "chat st req =
         (chat_prefix st req @ concat (replicate k (poll_round (thread_id req) r))
            @ [RunsRetrieve (thread_id req) (run_id r)],
          Inl (HTTPException 500 ''Run requires action - function calling not implemented''))"
proof -
  let ?log = "chat_prefix st req @ concat (replicate k (poll_round (thread_id req) r))"
  have "retrievals ?log = k" by simp
  then have "poll c (thread_id req) r k ?log =
         (?log @ [RunsRetrieve (thread_id req) (run_id r)],
          Inl (HTTPException 500 ''Run requires action - function calling not implemented''))"
    using poll_requires_action [of k c ?log "thread_id req" r rs] assms(2,4,5) by simp
  then show ?thesis
    using chat_started [OF assms(1)] poll_reaches(1) [OF assms(2,3), of st] by simp
qed

lemma fst_chat_except [simp]: "fst (chat_except x) = fst x"
  by (cases x rule: chat_except.cases) simp_all

lemma fst_chat_reply [simp]: "fst (chat_reply c tid log) = log @ [MessagesList tid 1]"
  by (simp add: chat_reply_def Let_def split: sum.splits list.splits content_block.splits)

lemma poll_retrievals_bound:
  assumes "runs_retrieve c k tid (run_id r) = Inr rs"
    and "terminal_status (status rs)"
    and "retrievals log \<le> k"
  shows "retrievals (fst (poll c tid r attempts log)) \<le> Suc k"
  using assms
proof (induction c tid r attempts log rule: poll.induct)
  case (1 c tid r attempts log)
  show ?case
  proof (cases "attempts < MAX_POLL_ATTEMPTS")
    case False
    then show ?thesis
      using "1.prems"(3) by (simp add: poll_exhausted)
  next
    case True
    show ?thesis
    proof (cases "runs_retrieve c (retrievals log) tid (run_id r)")
      case (Inl e)
      then show ?thesis
        using True "1.prems"(3) by (simp add: poll_raises)
    next
      case (Inr x)
      show ?thesis
      proof (cases "terminal_status (status x)")
        case stop: True
        then have "fst (poll c tid r attempts log) = log @ [RunsRetrieve tid (run_id r)]"
          using True Inr by (subst poll.simps) (auto simp: terminal_status_def Let_def)
        then show ?thesis
          using "1.prems"(3) by simp
      next
        case continue: False
        have "retrievals log \<noteq> k"
          using continue Inr "1.prems"(1,2) by auto
        then have below: "retrievals (log @ [RunsRetrieve tid (run_id r)] @ [Sleep POLL_INTERVAL]) \<le> k"
          using "1.prems"(3) by simp
        have "retrievals (fst (poll c tid r (attempts + 1)
                 ((log @ [RunsRetrieve tid (run_id r)]) @ [Sleep POLL_INTERVAL]))) \<le> Suc k"
          using "1.IH" [OF True refl Inr refl _ _ _ "1.prems"(1,2)] continue below
          by (simp add: terminal_status_def)
        then show ?thesis
          using poll_continue [OF True Inr continue] by (simp add: poll_round_def)
      qed
    qed
  qed
qed

lemma pending_weaken:
  assumes "\<forall>k<n. \<exists>rs. runs_retrieve c k tid rid = Inr rs \<and> status rs \<in> set [''queued'', ''in_progress'']"
  shows "\<forall>k<n. \<exists>rs. runs_retrieve c k tid rid = Inr rs \<and> \<not> terminal_status (status rs)"
  using assms by (auto simp: terminal_status_def)

lemma retrievals_chat_after_poll [simp]:
  "retrievals (fst (chat_after_poll c tid p)) = retrievals (fst p)"
  by (cases "(c, tid, p)" rule: chat_after_poll.cases) simp_all

lemma terminal_cases:
  "terminal_status s \<longleftrightarrow>
     s = ''completed'' \<or> s \<in> set [''cancelling'', ''cancelled'', ''expired'', ''failed'']
     \<or> s = ''requires_action''"
  by (auto simp: terminal_status_def)

subsection \<open>Facts about the scripted services\<close>

lemma run_started_scripted:
  "run_started (scripted_state n s e data) hello_request (scripted_remote n s e data)
     (scripted_run n s e 0)"
  by (simp add: run_started_def scripted_state_def scripted_remote_def hello_request_def)

lemma retrieve_scripted:
  "runs_retrieve (scripted_remote n s e data) k tid rid = Inr (scripted_run n s e k)"
  by (simp add: scripted_remote_def)

lemma scripted_queued:
  "k < n \<Longrightarrow> status (scripted_run n s e k) = ''queued''"
  by (simp add: scripted_run_def)

lemma scripted_pending:
  "\<forall>k<n. \<exists>rs. runs_retrieve (scripted_remote n s e data) k tid rid = Inr rs
                \<and> \<not> terminal_status (status rs)"
  by (simp add: retrieve_scripted scripted_queued terminal_status_def)

lemma scripted_final:
  "status (scripted_run n s e n) = s" "last_error (scripted_run n s e n) = e"
  by (simp_all add: scripted_run_def)

lemma scripted_queued_only:
  "\<forall>k<n. \<exists>rs. runs_retrieve (scripted_remote n s e data) k tid rid = Inr rs
                \<and> status rs \<in> set [''queued'', ''in_progress'']"
  by (simp add: retrieve_scripted scripted_queued)

section \<open>The claims\<close>

text \<open>
  C1. In the poll loop of \<open>/chat\<close>, if 60 polling attempts pass without the run
  reaching a terminal status, the handler returns a timeout error with HTTP status 504,
  and performs no further status retrievals after the budget is exhausted.

  Whenever the handler gets as far as the loop and each of the first 60 status retrievals
  returns a status at which the loop does not stop, the handler raises the 504 timeout
  error; its log is the two creations followed by 60 passes of retrieval and sleep and
  nothing after them, so there are exactly 60 status retrievals and the messages are never
  listed.
\<close>

theorem chat_timeout_504:
  assumes "run_started st req c r"
    and "\<forall>k<60. \<exists>rs. runs_retrieve c k (thread_id req) (run_id r) = Inr rs
                    \<and> \<not> terminal_status (status rs)"
  shows "snd (chat st req) =
           Inl (HTTPException 504 ''Request timeout: Assistant did not respond in time'')
         \<and> fst (chat st req) =
             chat_prefix st req @ concat (replicate 60 (poll_round (thread_id req) r))
         \<and> retrievals (fst (chat st req)) = 60"
  using chat_timeout [of st req c r] assms by (simp add: MAX_POLL_ATTEMPTS_def)

theorem chat_timeout_504_witness:
  "snd (chat (scripted_state 60 ''completed'' None []) hello_request) =
     Inl (HTTPException 504 ''Request timeout: Assistant did not respond in time'')
   \<and> retrievals (fst (chat (scripted_state 60 ''completed'' None []) hello_request)) = 60"
  using chat_timeout_504 [OF run_started_scripted scripted_pending] by simp

text \<open>
  C2. For every \<open>n\<close> with \<open>1 \<le> n \<le> 60\<close>, if the run's status first becomes
  \<open>completed\<close> on the \<open>n\<close>-th status retrieval (and is \<open>queued\<close> or \<open>in_progress\<close>
  before that), the poller performs exactly \<open>n\<close> status queries; in particular, a run
  that completes on attempt 3 causes exactly 3 status queries.

  The retrievals are counted from 0 in the model, so the \<open>n\<close>-th one is number \<open>n - 1\<close>.
  The count is that of the whole log of the handler, whatever the listing of the messages
  answers afterwards. The example is the run that completes on attempt 3.
\<close>

theorem completed_on_attempt_n:
  assumes "run_started st req c r"
    and "1 \<le> n" and "n \<le> 60"
    and "\<forall>k<n - 1. \<exists>rs. runs_retrieve c k (thread_id req) (run_id r) = Inr rs
                        \<and> status rs \<in> set [''queued'', ''in_progress'']"
    and "\<exists>rs. runs_retrieve c (n - 1) (thread_id req) (run_id r) = Inr rs
              \<and> status rs = ''completed''"
  shows "retrievals (fst (chat st req)) = n"
proof -
  from assms(5) obtain rs where rs: "runs_retrieve c (n - 1) (thread_id req) (run_id r) = Inr rs"
    "status rs = ''completed''" by blast
  have lt: "n - 1 < MAX_POLL_ATTEMPTS"
    using assms(2,3) by (simp add: MAX_POLL_ATTEMPTS_def)
  have "retrievals (fst (chat st req)) = Suc (n - 1)"
    using chat_completed [OF assms(1) lt pending_weaken [OF assms(4)] rs] by simp
  then show ?thesis using assms(2) by simp
qed

theorem completed_on_attempt_n_witness:
  "retrievals (fst (chat (scripted_state 2 ''completed'' None []) hello_request)) = 3"
proof -
  have "\<exists>rs. runs_retrieve (scripted_remote 2 ''completed'' None []) (3 - 1)
                (thread_id hello_request) (run_id (scripted_run 2 ''completed'' None 0)) = Inr rs
              \<and> status rs = ''completed''"
    by (simp add: retrieve_scripted scripted_final)
  moreover have "\<forall>k<3 - 1. \<exists>rs. runs_retrieve (scripted_remote 2 ''completed'' None []) k
                (thread_id hello_request) (run_id (scripted_run 2 ''completed'' None 0)) = Inr rs
              \<and> status rs \<in> set [''queued'', ''in_progress'']"
    using scripted_queued_only [of 2] by simp
  ultimately show ?thesis
    using completed_on_attempt_n [OF run_started_scripted, of 3 2 "''completed''" None "[]"]
    by simp
qed

text \<open>
  C3. Once the poll loop observes any terminal status (\<open>completed\<close>, \<open>cancelling\<close>,
  \<open>cancelled\<close>, \<open>expired\<close>, \<open>failed\<close> or \<open>requires_action\<close>) for a run, it never
  performs another status retrieval for that run: terminal failure statuses stop polling
  immediately with an error, and \<open>completed\<close> exits the loop immediately.

  If the answer to retrieval number \<open>k\<close> (counted from 0) is a terminal status, the whole
  log of the handler holds at most \<open>k + 1\<close> retrievals, whatever the earlier answers were.
  If moreover the loop gets that far (\<open>k < 60\<close> and the earlier answers are not terminal),
  there are exactly \<open>k + 1\<close> of them: after \<open>completed\<close> the only later call is the
  listing of the messages, and after any other terminal status the retrieval is the last
  entry of the log (no sleep follows it) and the handler raises a 500 error.
\<close>

theorem no_retrieval_after_terminal:
  assumes "run_started st req c r"
    and "runs_retrieve c k (thread_id req) (run_id r) = Inr rs"
    and "terminal_status (status rs)"
  shows "retrievals (fst (chat st req)) \<le> Suc k
         \<and> (k < 60 \<and> (\<forall>j<k. \<exists>rs'. runs_retrieve c j (thread_id req) (run_id r) = Inr rs'
                                      \<and> \<not> terminal_status (status rs'))
            \<longrightarrow> retrievals (fst (chat st req)) = Suc k
                \<and> (status rs = ''completed'' \<longrightarrow>
                     fst (chat st req) =
                       chat_prefix st req @ concat (replicate k (poll_round (thread_id req) r))
                       @ [RunsRetrieve (thread_id req) (run_id r), MessagesList (thread_id req) 1])
                \<and> (status rs \<noteq> ''completed'' \<longrightarrow>
                     fst (chat st req) =
                       chat_prefix st req @ concat (replicate k (poll_round (thread_id req) r))
                       @ [RunsRetrieve (thread_id req) (run_id r)]
                     \<and> (\<exists>detail. snd (chat st req) = Inl (HTTPException 500 detail))))"
proof (intro conjI impI)
  show "retrievals (fst (chat st req)) \<le> Suc k"
    using chat_started [OF assms(1)]
      poll_retrievals_bound [OF assms(2,3), of "chat_prefix st req" 0]
    by simp
next
  assume first: "k < 60 \<and> (\<forall>j<k. \<exists>rs'. runs_retrieve c j (thread_id req) (run_id r) = Inr rs'
                                      \<and> \<not> terminal_status (status rs'))"
  then have lt: "k < MAX_POLL_ATTEMPTS"
    and pending: "\<forall>j<k. \<exists>rs'. runs_retrieve c j (thread_id req) (run_id r) = Inr rs'
                                      \<and> \<not> terminal_status (status rs')"
    by (simp_all add: MAX_POLL_ATTEMPTS_def)
  note completed = chat_completed [OF assms(1) lt pending assms(2)]
  note failure = chat_failure [OF assms(1) lt pending assms(2)]
  note action = chat_requires_action [OF assms(1) lt pending assms(2)]
  show "retrievals (fst (chat st req)) = Suc k"
    using assms(3) completed failure action unfolding terminal_cases by auto
  {
    assume "status rs = ''completed''"
    then show "fst (chat st req) =
                 chat_prefix st req @ concat (replicate k (poll_round (thread_id req) r))
                 @ [RunsRetrieve (thread_id req) (run_id r), MessagesList (thread_id req) 1]"
      using completed by simp
  }
  {
    assume "status rs \<noteq> ''completed''"
    then have other: "status rs \<in> set [''cancelling'', ''cancelled'', ''expired'', ''failed'']
                      \<or> status rs = ''requires_action''"
      using assms(3) unfolding terminal_cases by blast
    from other show "fst (chat st req) =
                 chat_prefix st req @ concat (replicate k (poll_round (thread_id req) r))
                 @ [RunsRetrieve (thread_id req) (run_id r)]"
      using failure action by auto
    from other show "\<exists>detail. snd (chat st req) = Inl (HTTPException 500 detail)"
      using failure action by auto
  }
qed

theorem no_retrieval_after_terminal_witness:
  "retrievals (fst (chat (scripted_state 2 ''cancelled'' None []) hello_request)) = 3
   \<and> (\<exists>detail. snd (chat (scripted_state 2 ''cancelled'' None []) hello_request)
                  = Inl (HTTPException 500 detail))"
  using no_retrieval_after_terminal [OF run_started_scripted retrieve_scripted,
          of 2 "''cancelled''" None 2 "[]"] scripted_pending [of 2 "''cancelled''" None "[]"]
  by (simp add: scripted_final terminal_status_def)

text \<open>
  C4. For every terminal failure status in \<open>cancelling\<close>, \<open>cancelled\<close>, \<open>expired\<close>,
  \<open>failed\<close>, the handler raises an HTTP 500 error whose detail names the status, and the
  upstream error detail (the run's \<open>last_error\<close>) is passed through in the error detail
  whenever it is available.

  The second half does not hold as stated: line 120 appends \<open>last_error\<close> under the guard
  \<open>status == 'failed'\<close>, so a run that ends \<open>expired\<close> with \<open>last_error\<close> set is
  reported without it.
\<close>

theorem expired_drops_last_error:
  "last_error (scripted_run 0 ''expired'' (Some ''rate_limit_exceeded'') 0)
     = Some ''rate_limit_exceeded''
   \<and> snd (chat (scripted_state 0 ''expired'' (Some ''rate_limit_exceeded'') []) hello_request)
     = Inl (HTTPException 500 ''Run ended with status: expired'')"
  using chat_failure [OF run_started_scripted _ scripted_pending retrieve_scripted,
          of 0 "''expired''" "Some ''rate_limit_exceeded''" "[]"]
  by (simp add: scripted_final MAX_POLL_ATTEMPTS_def)

text \<open>
  C4, as amended. For each of the four statuses the handler raises a 500 error whose detail
  is \<open>Run ended with status:\<close> followed by the status; \<open>last_error\<close> is appended, after
  \<open> - Error: \<close>, exactly when the status is \<open>failed\<close> and \<open>last_error\<close> is set.
\<close>

theorem failure_status_500:
  assumes "run_started st req c r"
    and "k < 60"
    and "\<forall>j<k. \<exists>rs. runs_retrieve c j (thread_id req) (run_id r) = Inr rs
                    \<and> \<not> terminal_status (status rs)"
    and "runs_retrieve c k (thread_id req) (run_id r) = Inr rs"
    and "status rs \<in> set [''cancelling'', ''cancelled'', ''expired'', ''failed'']"
  shows "snd (chat st req) =
           Inl (HTTPException 500
                  (''Run ended with status: '' @ status rs @
                   (case last_error rs of
                      None \<Rightarrow> []
                    | Some e \<Rightarrow> if status rs = ''failed'' then '' - Error: '' @ e else [])))"
  using chat_failure [of st req c r k rs] assms
  by (auto simp: MAX_POLL_ATTEMPTS_def split: option.splits)

theorem failure_status_500_witness:
  "snd (chat (scripted_state 1 ''failed'' (Some ''server_error'') []) hello_request) =
     Inl (HTTPException 500 ''Run ended with status: failed - Error: server_error'')"
  using failure_status_500 [OF run_started_scripted _ scripted_pending retrieve_scripted,
          of 1 "''failed''" "Some ''server_error''" "[]"]
  by (simp add: scripted_final)




text \<open>
  C6. If the message list retrieved after a run reaches \<open>completed\<close> is empty, the
  handler returns a 500 error (a server-side failure), not a success with an empty
  response.

  The result is \<open>Inl\<close> of the HTTPException with status 500 and detail
  \<open>No response from assistant\<close>; a success would be \<open>Inr\<close>.
\<close>

theorem empty_message_list_500:
  assumes "run_started st req c r"
    and "k < 60"
    and "\<forall>j<k. \<exists>rs. runs_retrieve c j (thread_id req) (run_id r) = Inr rs
                    \<and> \<not> terminal_status (status rs)"
    and "runs_retrieve c k (thread_id req) (run_id r) = Inr rs"
    and "status rs = ''completed''"
    and "messages_list c (thread_id req) 1 = Inr []"
  shows "snd (chat st req) = Inl (HTTPException 500 ''No response from assistant'')"
  using chat_completed [of st req c r k rs] assms
  by (simp add: MAX_POLL_ATTEMPTS_def chat_reply_def Let_def)

theorem empty_message_list_500_witness:
  "snd (chat (scripted_state 1 ''completed'' None []) hello_request) =
     Inl (HTTPException 500 ''No response from assistant'')"
  using empty_message_list_500 [OF run_started_scripted _ scripted_pending retrieve_scripted,
          of 1 "''completed''" None "[]"]
  by (simp add: scripted_final scripted_remote_def)




text \<open>
  C8. If a status retrieval reports \<open>requires_action\<close>, the poller treats it as a
  terminal failure for an unsupported feature and raises an HTTP 500 error without
  performing any further polling.

  The retrieval that reports it is the last entry of the log: no sleep and no retrieval
  follow, and the detail says that function calling is not implemented.
\<close>

theorem requires_action_500:
  assumes "run_started st req c r"
    and "k < 60"
    and "\<forall>j<k. \<exists>rs. runs_retrieve c j (thread_id req) (run_id r) = Inr rs
                    \<and> \<not> terminal_status (status rs)"
    and "runs_retrieve c k (thread_id req) (run_id r) = Inr rs"
    and "status rs = ''requires_action''"
  shows "snd (chat st req) =
           Inl (HTTPException 500 ''Run requires action - function calling not implemented'')
         \<and> fst (chat st req) =
             chat_prefix st req @ concat (replicate k (poll_round (thread_id req) r))
             @ [RunsRetrieve (thread_id req) (run_id r)]
         \<and> retrievals (fst (chat st req)) = Suc k"
  using chat_requires_action [of st req c r k rs] assms by (simp add: MAX_POLL_ATTEMPTS_def)

theorem requires_action_500_witness:
  "snd (chat (scripted_state 4 ''requires_action'' None []) hello_request) =
     Inl (HTTPException 500 ''Run requires action - function calling not implemented'')
   \<and> retrievals (fst (chat (scripted_state 4 ''requires_action'' None []) hello_request)) = 5"
  using requires_action_500 [OF run_started_scripted _ scripted_pending retrieve_scripted,
          of 4 "''requires_action''" None "[]"]
  by (simp add: scripted_final)

text \<open>
  C9. Any run status outside the enumerated set \<open>completed\<close>, \<open>cancelling\<close>,
  \<open>cancelled\<close>, \<open>expired\<close>, \<open>failed\<close>, \<open>requires_action\<close> (not only \<open>queued\<close> and
  \<open>in_progress\<close>) is treated as non-terminal: the loop sleeps and polls again, so a run
  stuck in an unrecognised status for all 60 attempts ends in the 504 timeout error rather
  than a classified failure.

  First the single pass: with attempts left and a status outside the six, the loop goes on
  with the retrieval and the sleep added to the log and \<open>attempts\<close> one higher. Then the
  whole handler: 60 such answers in a row give the 504 error after 60 passes. The example
  is a run that reports \<open>incomplete\<close> on every retrieval.
\<close>

theorem unrecognised_status_keeps_polling:
  "(attempts < 60 \<and> runs_retrieve c (retrievals log) tid (run_id r) = Inr rs
    \<and> status rs \<notin> set [''completed'', ''cancelling'', ''cancelled'', ''expired'', ''failed'',
                        ''requires_action'']
    \<longrightarrow> poll c tid r attempts log =
        poll c tid r (attempts + 1) (log @ [RunsRetrieve tid (run_id r), Sleep 1]))
   \<and> (run_started st req c r
      \<and> (\<forall>k<60. \<exists>rs. runs_retrieve c k (thread_id req) (run_id r) = Inr rs
             \<and> status rs \<notin> set [''completed'', ''cancelling'', ''cancelled'', ''expired'',
                                 ''failed'', ''requires_action''])
    \<longrightarrow> chat st req =
        (chat_prefix st req
           @ concat (replicate 60 [RunsRetrieve (thread_id req) (run_id r), Sleep 1]),
         Inl (HTTPException 504 ''Request timeout: Assistant did not respond in time'')))"
proof (intro conjI impI)
  assume "attempts < 60 \<and> runs_retrieve c (retrievals log) tid (run_id r) = Inr rs
    \<and> status rs \<notin> set [''completed'', ''cancelling'', ''cancelled'', ''expired'', ''failed'',
                        ''requires_action'']"
  then show "poll c tid r attempts log =
        poll c tid r (attempts + 1) (log @ [RunsRetrieve tid (run_id r), Sleep 1])"
    using poll_continue [of attempts c log tid r rs]
    by (simp add: MAX_POLL_ATTEMPTS_def terminal_status_def poll_round_def POLL_INTERVAL_def)
next
  assume stuck: "run_started st req c r
      \<and> (\<forall>k<60. \<exists>rs. runs_retrieve c k (thread_id req) (run_id r) = Inr rs
             \<and> status rs \<notin> set [''completed'', ''cancelling'', ''cancelled'', ''expired'',
                                 ''failed'', ''requires_action''])"
  then have "\<forall>k<MAX_POLL_ATTEMPTS. \<exists>rs. runs_retrieve c k (thread_id req) (run_id r) = Inr rs
                    \<and> \<not> terminal_status (status rs)"
    unfolding terminal_status_def MAX_POLL_ATTEMPTS_def by blast
  then show "chat st req =
        (chat_prefix st req
           @ concat (replicate 60 [RunsRetrieve (thread_id req) (run_id r), Sleep 1]),
         Inl (HTTPException 504 ''Request timeout: Assistant did not respond in time''))"
    using chat_timeout [of st req c r] stuck
    by (simp add: MAX_POLL_ATTEMPTS_def poll_round_def POLL_INTERVAL_def)
qed

theorem unrecognised_status_keeps_polling_witness:
  "poll (scripted_remote 0 ''incomplete'' None []) ''thread_1''
        (scripted_run 0 ''incomplete'' None 0) 0 []
   = poll (scripted_remote 0 ''incomplete'' None []) ''thread_1''
        (scripted_run 0 ''incomplete'' None 0) (0 + 1)
        ([] @ [RunsRetrieve ''thread_1'' (run_id (scripted_run 0 ''incomplete'' None 0)), Sleep 1])
   \<and> snd (chat (scripted_state 0 ''incomplete'' None []) hello_request)
     = Inl (HTTPException 504 ''Request timeout: Assistant did not respond in time'')"
proof -
  let ?c = "scripted_remote 0 ''incomplete'' None []"
  let ?r = "scripted_run 0 ''incomplete'' None 0"
  have stuck: "\<forall>k<60. \<exists>rs. runs_retrieve ?c k (thread_id hello_request) (run_id ?r) = Inr rs
             \<and> status rs \<notin> set [''completed'', ''cancelling'', ''cancelled'', ''expired'',
                                 ''failed'', ''requires_action'']"
    by (simp add: retrieve_scripted scripted_run_def)
  have one: "(0::nat) < 60 \<and> runs_retrieve ?c (retrievals []) ''thread_1'' (run_id ?r) = Inr ?r
    \<and> status ?r \<notin> set [''completed'', ''cancelling'', ''cancelled'', ''expired'', ''failed'',
                        ''requires_action'']"
    by (simp add: retrieve_scripted scripted_run_def)
  show ?thesis
    using unrecognised_status_keeps_polling
            [of 0 ?c "[]" "''thread_1''" ?r ?r "scripted_state 0 ''incomplete'' None []" hello_request]
          one stuck run_started_scripted [of 0 "''incomplete''" None "[]"]
    by simp
qed

text \<open>
  C10. The \<open>/health\<close> endpoint always succeeds and always reports status \<open>healthy\<close>,
  for every configuration state: the fields \<open>openai_configured\<close> and
  \<open>assistant_configured\<close> report whether the client and the assistant identifier are
  set, but the field \<open>status\<close> never takes any value other than \<open>healthy\<close>.

  For every state the handler returns a dict (it has no branch that raises) with exactly
  the three keys, where \<open>status\<close> is the string \<open>healthy\<close> and the two booleans say
  whether \<open>client\<close> and \<open>assistant_id\<close> differ from \<open>None\<close>.
\<close>

theorem health_always_healthy:
  "map_of (health_check st) ''status'' = Some (JStr ''healthy'')
   \<and> map_of (health_check st) ''openai_configured'' = Some (JBool (client st \<noteq> None))
   \<and> map_of (health_check st) ''assistant_configured'' = Some (JBool (assistant_id st \<noteq> None))
   \<and> map fst (health_check st) = [''status'', ''openai_configured'', ''assistant_configured'']"
  by (simp add: health_check_def Option.is_none_def)

end
